theory Spec2Isabelle
  imports Complex_Main
begin

section \<open>The plotting script \<open>data_plot.py\<close>\<close>

text \<open>
  The repository is one top-level script. It declares six module-level lists, fills them
  from \<open>./result.csv\<close> in a loop over \<open>csv.reader\<close>, and then draws the two panels with
  matplotlib. The script defines no function and no exception class: every failure is the
  exception the Python built-in or the matplotlib call at that statement raises.

  The model below is the script, statement by statement, as a state transformer over its
  variables. What the script takes from outside is modelled as follows:
  \<^item> the file: \<open>None\<close> when \<open>open\<close> fails, \<open>Some rows\<close> with the records \<open>csv.reader\<close> yields
    (each a list of string tokens; a blank line is the record \<open>[]\<close>);
  \<^item> \<open>float\<close>: a parameter \<open>pf\<close> giving \<open>Some x\<close> where \<open>float(v)\<close> returns \<open>x\<close> and \<open>None\<close>
    where it raises \<open>ValueError\<close>;
  \<^item> matplotlib: a figure is the record of the lines drawn (with their data and keyword
    arguments), the labels, the legend, and the x range \<open>set_xlim\<close> leaves on the axes.
\<close>

subsection \<open>Python floats\<close>

text \<open>
  A Python float is a double: a finite value, written here as the rational number it is,
  or one of the three values that are not finite.
\<close>

datatype num = Fin rat | PosInf | NegInf | NaN

fun isfinite :: "num \<Rightarrow> bool" where
  "isfinite (Fin q) = True"
| "isfinite x = False"

subsection \<open>Exceptions\<close>

text \<open>
  \<open>OSError\<close>: \<open>open\<close> on a missing or unreadable file. \<open>ValueError v\<close>: \<open>float(v)\<close> on a
  token that is no number; Python's message quotes the token \<open>v\<close> and nothing else.
  \<open>IndexError\<close>: a list index out of range; the message is constant.
  \<open>ShapeError\<close>: the \<open>ValueError\<close> of \<open>Axes.step\<close> for x and y of different lengths.
  \<open>LimitError\<close>: the \<open>ValueError\<close> of \<open>Axes.set_xlim\<close> for a limit that is NaN or infinite.
\<close>

datatype py_exception = OSError | ValueError string | IndexError | ShapeError | LimitError

fun exc_name :: "py_exception \<Rightarrow> string" where
  "exc_name OSError = ''OSError''"
| "exc_name (ValueError v) = ''ValueError''"
| "exc_name IndexError = ''IndexError''"
| "exc_name ShapeError = ''ValueError''"
| "exc_name LimitError = ''ValueError''"

subsection \<open>What matplotlib is asked to draw\<close>

record line2d =
  xdata :: "num list"
  ydata :: "num list"
  color :: string
  label :: "string option"
  linestyle :: "string option"
  drawstyle :: string

record axes =
  subplot :: nat
  lines :: "line2d list"
  xlim :: "(num \<times> num) option"
  xlabel :: "(string \<times> nat) option"
  ylabel :: "(string \<times> nat) option"
  tick_labelsize :: "nat option"
  legend :: "(nat \<times> string) option"

record figure =
  figsize :: "nat \<times> nat"
  suptitle :: "(string \<times> nat) option"

subsection \<open>The script's variables\<close>

record state =
  t :: "num list"
  r :: "num list"
  y :: "num list"
  u :: "num list"
  limit_under :: "num list"
  limit_upper :: "num list"
  fig1 :: "figure option"
  ax1 :: "axes option"
  ax2 :: "axes option"
  shown :: bool

definition init :: state where
  "init = \<lparr>t = [], r = [], y = [], u = [], limit_under = [], limit_upper = [],
           fig1 = None, ax1 = None, ax2 = None, shown = False\<rparr>"

type_synonym stmt = "state \<Rightarrow> state \<times> py_exception option"

text \<open>Statements run in order; the first exception ends the run, and the state stays as
  the statements before it left it.\<close>

fun exec :: "stmt list \<Rightarrow> stmt" where
  "exec [] s = (s, None)"
| "exec (c # cs) s = (case c s of (s', Some e) \<Rightarrow> (s', Some e) | (s', None) \<Rightarrow> exec cs s')"

subsection \<open>Loading\<close>

text \<open>\<open>nums = [float(v) for v in row]\<close>: every token of the record is converted, left to
  right, and the first one that fails raises.\<close>

fun floats :: "(string \<Rightarrow> num option) \<Rightarrow> string list \<Rightarrow> py_exception + num list" where
  "floats pf [] = Inr []"
| "floats pf (v # vs) =
     (case pf v of
        None \<Rightarrow> Inl (ValueError v)
      | Some x \<Rightarrow> (case floats pf vs of Inl e \<Rightarrow> Inl e | Inr xs \<Rightarrow> Inr (x # xs)))"

text \<open>\<open>col.append(nums[i])\<close> for one of the six lists, given by its update function.\<close>

definition append_item ::
  "((num list \<Rightarrow> num list) \<Rightarrow> state \<Rightarrow> state) \<Rightarrow> num list \<Rightarrow> nat \<Rightarrow> stmt" where
  "append_item upd nums i s =
     (if i < length nums then (upd (\<lambda>xs. xs @ [nums ! i]) s, None) else (s, Some IndexError))"

definition loop_body :: "(string \<Rightarrow> num option) \<Rightarrow> string list \<Rightarrow> stmt" where
  "loop_body pf row s =
     (case floats pf row of
        Inl e \<Rightarrow> (s, Some e)
      | Inr nums \<Rightarrow>
          exec [append_item t_update nums 0,
                append_item r_update nums 1,
                append_item y_update nums 2,
                append_item u_update nums 3,
                append_item limit_under_update nums 4,
                append_item limit_upper_update nums 5] s)"

definition load :: "(string \<Rightarrow> num option) \<Rightarrow> string list list option \<Rightarrow> stmt" where
  "load pf file s =
     (case file of
        None \<Rightarrow> (s, Some OSError)
      | Some rows \<Rightarrow> exec (map (loop_body pf) rows) s)"

subsection \<open>Drawing\<close>

text \<open>\<open>ax.step(x, y, color=..., label=..., linestyle=...)\<close>. The script never passes
  \<open>where\<close>, so every line has matplotlib's default \<open>where='pre'\<close>, that is the draw style
  \<open>steps-pre\<close>.\<close>

definition step :: "num list \<Rightarrow> num list \<Rightarrow> string \<Rightarrow> string option \<Rightarrow> string option \<Rightarrow>
    axes \<Rightarrow> py_exception + axes" where
  "step xs ys c lbl ls ax =
     (if length xs \<noteq> length ys then Inl ShapeError
      else Inr (ax\<lparr>lines := lines ax @
             [\<lparr>xdata = xs, ydata = ys, color = c, label = lbl, linestyle = ls,
               drawstyle = ''steps-pre''\<rparr>]\<rparr>))"

text \<open>
  What \<open>Axes.set_xlim(left, right)\<close> does on fresh linear axes. A limit that is NaN or
  infinite raises \<open>ValueError\<close>. Finite limits go through the locator's \<open>nonsingular\<close>
  (matplotlib's \<open>transforms.nonsingular\<close> with \<open>expander = 0.05\<close> and \<open>tiny = 1e-15\<close>), which
  widens an interval that is too narrow to draw: both limits tiny, or closer to each other
  than \<open>1e-15\<close> of the larger magnitude, as two equal limits are. The order of the limits is
  kept. \<open>tiny_limit\<close> is \<open>1e6 / tiny\<close> times the smallest normal double, \<open>2 ^ -1022\<close>. The
  arithmetic is exact here, where numpy rounds each result to a double.
\<close>

definition tiny_limit :: rat where
  "tiny_limit = 10 ^ 21 / 2 ^ 1022"

definition nonsingular :: "rat \<Rightarrow> rat \<Rightarrow> rat \<times> rat" where
  "nonsingular vmin vmax =
     (let maxabsvalue = max \<bar>vmin\<bar> \<bar>vmax\<bar> in
      if maxabsvalue < tiny_limit then (- (1 / 20), 1 / 20)
      else if vmax - vmin \<le> maxabsvalue / 10 ^ 15 then
        (if vmax = 0 \<and> vmin = 0 then (- (1 / 20), 1 / 20)
         else (vmin - \<bar>vmin\<bar> / 20, vmax + \<bar>vmax\<bar> / 20))
      else (vmin, vmax))"

definition set_xlim :: "num \<Rightarrow> num \<Rightarrow> py_exception + num \<times> num" where
  "set_xlim left right =
     (case (left, right) of
        (Fin v0, Fin v1) \<Rightarrow>
          (case nonsingular (min v0 v1) (max v0 v1) of
             (lo, hi) \<Rightarrow> Inr (if v1 < v0 then (Fin hi, Fin lo) else (Fin lo, Fin hi)))
      | _ \<Rightarrow> Inl LimitError)"

text \<open>\<open>ax.set_xlim(t[0], t[-1])\<close>: both subscripts raise on the empty list, before the
  call.\<close>

definition set_xlim_t :: "num list \<Rightarrow> axes \<Rightarrow> py_exception + axes" where
  "set_xlim_t ts ax =
     (case ts of
        [] \<Rightarrow> Inl IndexError
      | x # xs \<Rightarrow> (case set_xlim x (last (x # xs)) of
                    Inl e \<Rightarrow> Inl e
                  | Inr lims \<Rightarrow> Inr (ax\<lparr>xlim := Some lims\<rparr>)))"

text \<open>A method call on the axes held by \<open>ax1\<close> or \<open>ax2\<close>.\<close>

definition on_ax1 :: "(state \<Rightarrow> axes \<Rightarrow> py_exception + axes) \<Rightarrow> stmt" where
  "on_ax1 f s =
     (case ax1 s of
        None \<Rightarrow> (s, None)
      | Some ax \<Rightarrow> (case f s ax of Inl e \<Rightarrow> (s, Some e) | Inr ax' \<Rightarrow> (s\<lparr>ax1 := Some ax'\<rparr>, None)))"

definition on_ax2 :: "(state \<Rightarrow> axes \<Rightarrow> py_exception + axes) \<Rightarrow> stmt" where
  "on_ax2 f s =
     (case ax2 s of
        None \<Rightarrow> (s, None)
      | Some ax \<Rightarrow> (case f s ax of Inl e \<Rightarrow> (s, Some e) | Inr ax' \<Rightarrow> (s\<lparr>ax2 := Some ax'\<rparr>, None)))"

definition new_axes :: "nat \<Rightarrow> axes" where
  "new_axes n = \<lparr>subplot = n, lines = [], xlim = None, xlabel = None, ylabel = None,
                 tick_labelsize = None, legend = None\<rparr>"

definition render :: stmt where
  "render = exec
     [\<lambda>s. (s\<lparr>fig1 := Some \<lparr>figsize = (10, 7), suptitle = None\<rparr>\<rparr>, None),
      \<lambda>s. (s\<lparr>fig1 := map_option (suptitle_update (\<lambda>_. Some (''Spring-Mass-Damper System'', 20)))
                        (fig1 s)\<rparr>, None),

      \<lambda>s. (s\<lparr>ax1 := Some (new_axes 211)\<rparr>, None),
      on_ax1 (\<lambda>s. step (t s) (r s) ''royalblue'' (Some ''Set-point'') (Some ''--'')),
      on_ax1 (\<lambda>s. step (t s) (y s) ''limegreen'' (Some ''Plant output'') None),
      on_ax1 (\<lambda>s. set_xlim_t (t s)),
      on_ax1 (\<lambda>s ax. Inr (ax\<lparr>ylabel := Some (''Displacement [m]'', 15)\<rparr>)),
      on_ax1 (\<lambda>s ax. Inr (ax\<lparr>tick_labelsize := Some 13\<rparr>)),
      on_ax1 (\<lambda>s ax. Inr (ax\<lparr>legend := Some (15, ''upper left'')\<rparr>)),

      \<lambda>s. (s\<lparr>ax2 := Some (new_axes 212)\<rparr>, None),
      on_ax2 (\<lambda>s. step (t s) (limit_upper s) ''red'' (Some ''Limit'') (Some ''--'')),
      on_ax2 (\<lambda>s. step (t s) (limit_under s) ''red'' None (Some ''--'')),
      on_ax2 (\<lambda>s. step (t s) (u s) ''orange'' (Some ''Control input'') None),
      on_ax2 (\<lambda>s. set_xlim_t (t s)),
      on_ax2 (\<lambda>s ax. Inr (ax\<lparr>xlabel := Some (''Time [s]'', 15)\<rparr>)),
      on_ax2 (\<lambda>s ax. Inr (ax\<lparr>ylabel := Some (''Force [N]'', 15)\<rparr>)),
      on_ax2 (\<lambda>s ax. Inr (ax\<lparr>tick_labelsize := Some 13\<rparr>)),
      on_ax2 (\<lambda>s ax. Inr (ax\<lparr>legend := Some (15, ''upper left'')\<rparr>)),

      \<lambda>s. (s\<lparr>shown := True\<rparr>, None)]"

text \<open>The whole script, from the initial state.\<close>

definition script :: "(string \<Rightarrow> num option) \<Rightarrow> string list list option \<Rightarrow>
    state \<times> py_exception option" where
  "script pf file = exec [load pf file, render] init"


subsection \<open>How a line of draw style \<open>steps-pre\<close> runs\<close>





text \<open>\<open>ax.legend(...)\<close> without handles lists the lines that carry a label, in the order
  they were drawn; a line drawn without \<open>label\<close>, and a label that is empty or starts with
  an underscore, gets no entry.\<close>

definition legend_labels :: "axes \<Rightarrow> string list" where
  "legend_labels ax =
     (case legend ax of
        None \<Rightarrow> []
      | Some _ \<Rightarrow> concat (map (\<lambda>ln. case label ln of
                                     None \<Rightarrow> []
                                   | Some l \<Rightarrow> if l = [] \<or> hd l = CHR ''_'' then [] else [l])
                            (lines ax)))"

subsection \<open>Vocabulary of the statements\<close>

text \<open>A record the loop body accepts: six tokens or more, and \<open>float\<close> accepts every one
  of them. \<open>field pf i row\<close> is what \<open>float\<close> returns for token \<open>i\<close> of such a record.\<close>

definition valid_record :: "(string \<Rightarrow> num option) \<Rightarrow> string list \<Rightarrow> bool" where
  "valid_record pf row = (6 \<le> length row \<and> list_all (\<lambda>v. pf v \<noteq> None) row)"

definition field :: "(string \<Rightarrow> num option) \<Rightarrow> nat \<Rightarrow> string list \<Rightarrow> num" where
  "field pf i row = the (pf (row ! i))"

text \<open>The six columns of a state, in the order of the fields.\<close>

definition columns :: "state \<Rightarrow> num list list" where
  "columns s = [t s, r s, y s, u s, limit_under s, limit_upper s]"

text \<open>What a record that is not valid leaves in column \<open>i\<close> before the loop stops: its
  field \<open>i\<close> when \<open>float\<close> accepted the whole record and the record has a token \<open>i\<close>,
  and nothing otherwise.\<close>

definition part :: "(string \<Rightarrow> num option) \<Rightarrow> nat \<Rightarrow> string list \<Rightarrow> num list" where
  "part pf i row = (if list_all (\<lambda>v. pf v \<noteq> None) row \<and> i < length row then [field pf i row] else [])"


subsection \<open>\<open>float\<close> on plain decimal numerals\<close>

text \<open>
  To run the script on a concrete file, \<open>float\<close> is read on the tokens such files hold: an
  optional sign, digits, and an optional point with digits. \<open>decimal v\<close> is the number the
  numeral \<open>v\<close> denotes. Where that number is a double (every numeral used below: small
  integers and \<open>0.5\<close>), it is the value of \<open>float(v)\<close>. \<open>float\<close> accepts more than this
  (exponents, \<open>inf\<close>, \<open>nan\<close>, underscores, padding) and rounds; none of that is read here, and
  the files run with \<open>decimal\<close> hold only plain numerals and tokens \<open>float\<close> refuses as well.
\<close>

definition digit :: "char \<Rightarrow> nat option" where
  "digit = map_of [(CHR ''0'', 0), (CHR ''1'', 1), (CHR ''2'', 2), (CHR ''3'', 3), (CHR ''4'', 4),
                    (CHR ''5'', 5), (CHR ''6'', 6), (CHR ''7'', 7), (CHR ''8'', 8), (CHR ''9'', 9)]"

fun digits :: "nat \<Rightarrow> string \<Rightarrow> nat option" where
  "digits n [] = Some n"
| "digits n (c # cs) = (case digit c of None \<Rightarrow> None | Some d \<Rightarrow> digits (10 * n + d) cs)"

definition unsigned :: "string \<Rightarrow> rat option" where
  "unsigned v =
     (let ip = takeWhile (\<lambda>c. c \<noteq> CHR ''.'') v; fp = drop (Suc (length ip)) v in
      if ip = [] \<and> fp = [] then None
      else (case (digits 0 ip, digits 0 fp) of
              (Some a, Some b) \<Rightarrow> Some (of_nat a + of_nat b / 10 ^ length fp)
            | _ \<Rightarrow> None))"

definition decimal :: "string \<Rightarrow> num option" where
  "decimal v =
     map_option Fin
       (case v of
          [] \<Rightarrow> None
        | c # cs \<Rightarrow> if c = CHR ''-'' then map_option uminus (unsigned cs)
                    else if c = CHR ''+'' then unsigned cs
                    else unsigned v)"

text \<open>The three records of the spec's axis-clamp scenario.\<close>

definition scenario :: "string list list" where
  "scenario = [[''0'', ''1'', ''0'', ''0'', ''-5'', ''5''],
               [''1'', ''1'', ''0.5'', ''2'', ''-5'', ''5''],
               [''2'', ''1'', ''1'', ''2'', ''-5'', ''5'']]"

subsection \<open>\<open>float\<close> on ASCII tokens\<close>

text \<open>
  \<open>float\<close> on a string, after the grammar of the Python documentation, for tokens of ASCII
  characters. White space around the token is dropped. An optional sign comes first. Then
  either \<open>inf\<close>, \<open>infinity\<close> or \<open>nan\<close> in any mix of cases, or a number: digits with an
  optional point, or a point followed by digits, and an optional exponent \<open>e\<close> or \<open>E\<close> with
  its own optional sign. Between two digits one underscore may stand. The value of a number
  is given unrounded, as for \<open>decimal\<close>, but for the two ends of the range, where rounding
  gives an infinity for a number beyond the largest double and zero for a number of at most
  half the smallest one.
\<close>

definition is_space :: "char \<Rightarrow> bool" where
  "is_space c = (c \<in> set [CHR 0x09, CHR 0x0A, CHR 0x0B, CHR 0x0C, CHR 0x0D,
                            CHR 0x1C, CHR 0x1D, CHR 0x1E, CHR 0x1F, CHR 0x20])"

definition strip :: "string \<Rightarrow> string" where
  "strip v = rev (dropWhile is_space (rev (dropWhile is_space v)))"

definition lower :: "char \<Rightarrow> char" where
  "lower c = (let n = (of_char c :: nat) in if 65 \<le> n \<and> n \<le> 90 then char_of (n + 32) else c)"

text \<open>A run of digits with single underscores between them: its value and the number of
  its digits.\<close>

definition digitpart :: "string \<Rightarrow> (nat \<times> nat) option" where
  "digitpart v =
     (let ds = filter (\<lambda>c. c \<noteq> CHR ''_'') v in
      if v = [] \<or> hd v = CHR ''_'' \<or> last v = CHR ''_'' \<or>
         list_ex (\<lambda>(a, b). a = CHR ''_'' \<and> b = CHR ''_'') (zip v (tl v))
      then None
      else map_option (\<lambda>n. (n, length ds)) (digits 0 ds))"

definition number :: "string \<Rightarrow> rat option" where
  "number v =
     (let ip = takeWhile (\<lambda>c. c \<noteq> CHR ''.'') v; fp = drop (Suc (length ip)) v in
      if length ip = length v then map_option (\<lambda>(a, k). of_nat a) (digitpart ip)
      else if ip = [] \<and> fp = [] then None
      else (case (if ip = [] then Some (0, 0) else digitpart ip,
                  if fp = [] then Some (0, 0) else digitpart fp) of
              (Some (a, j), Some (b, k)) \<Rightarrow> Some (of_nat a + of_nat b / 10 ^ k)
            | _ \<Rightarrow> None))"

definition exponent :: "string \<Rightarrow> int option" where
  "exponent v =
     (case v of
        [] \<Rightarrow> None
      | c # cs \<Rightarrow> if c = CHR ''-'' then map_option (\<lambda>(n, k). - int n) (digitpart cs)
                  else if c = CHR ''+'' then map_option (\<lambda>(n, k). int n) (digitpart cs)
                  else map_option (\<lambda>(n, k). int n) (digitpart v))"

definition floatnumber :: "string \<Rightarrow> rat option" where
  "floatnumber v =
     (let m = takeWhile (\<lambda>c. c \<noteq> CHR ''e'' \<and> c \<noteq> CHR ''E'') v in
      if length m = length v then number m
      else (case (number m, exponent (drop (Suc (length m)) v)) of
              (Some q, Some e) \<Rightarrow> Some (if 0 \<le> e then q * 10 ^ nat e else q / 10 ^ nat (- e))
            | _ \<Rightarrow> None))"

text \<open>Half-way between the largest double and \<open>2 ^ 1024\<close>, and half the smallest double.\<close>

definition overflow_limit :: rat where
  "overflow_limit = 2 ^ 1024 - 2 ^ 970"

definition underflow_limit :: rat where
  "underflow_limit = 1 / 2 ^ 1075"

definition py_float :: "string \<Rightarrow> num option" where
  "py_float v =
     (let s = strip v;
          neg = (s \<noteq> [] \<and> hd s = CHR ''-'');
          body = (if s \<noteq> [] \<and> (hd s = CHR ''-'' \<or> hd s = CHR ''+'') then tl s else s);
          word = map lower body
      in if word = ''inf'' \<or> word = ''infinity'' then Some (if neg then NegInf else PosInf)
         else if word = ''nan'' then Some NaN
         else (case floatnumber body of
                 None \<Rightarrow> None
               | Some q \<Rightarrow> Some (if overflow_limit \<le> q then (if neg then NegInf else PosInf)
                                  else if q \<le> underflow_limit then Fin 0
                                  else Fin (if neg then - q else q))))"

section \<open>Properties\<close>

subsection \<open>The loop over the records\<close>

lemma floats_all:
  "list_all (\<lambda>v. pf v \<noteq> None) row \<Longrightarrow> floats pf row = Inr (map (\<lambda>v. the (pf v)) row)"
  by (induction row) auto

lemma floats_first_bad:
  "list_all (\<lambda>w. pf w \<noteq> None) pre \<Longrightarrow> pf v = None \<Longrightarrow>
   floats pf (pre @ v # post) = Inl (ValueError v)"
  by (induction pre) auto

lemma floats_some_bad:
  "\<not> list_all (\<lambda>v. pf v \<noteq> None) row \<Longrightarrow> \<exists>v. floats pf row = Inl (ValueError v)"
  by (induction row) (auto simp add: floats_all split: option.splits sum.splits)

lemma exec_append:
  "exec (cs @ ds) s = (case exec cs s of (s', Some e) \<Rightarrow> (s', Some e) | (s', None) \<Rightarrow> exec ds s')"
  by (induction cs arbitrary: s) (auto split: prod.splits option.splits)

lemma loop_body_valid:
  assumes "valid_record pf row"
  shows "loop_body pf row s =
    (s\<lparr>t := t s @ [field pf 0 row], r := r s @ [field pf 1 row], y := y s @ [field pf 2 row],
       u := u s @ [field pf 3 row], limit_under := limit_under s @ [field pf 4 row],
       limit_upper := limit_upper s @ [field pf 5 row]\<rparr>, None)"
  using assms by (auto simp add: valid_record_def loop_body_def floats_all append_item_def field_def)

lemma exec_loop_valid:
  "list_all (valid_record pf) rows \<Longrightarrow>
   exec (map (loop_body pf) rows) s =
    (s\<lparr>t := t s @ map (field pf 0) rows, r := r s @ map (field pf 1) rows,
       y := y s @ map (field pf 2) rows, u := u s @ map (field pf 3) rows,
       limit_under := limit_under s @ map (field pf 4) rows,
       limit_upper := limit_upper s @ map (field pf 5) rows\<rparr>, None)"
  by (induction rows arbitrary: s) (simp_all add: loop_body_valid)

lemma loop_body_short:
  assumes "list_all (\<lambda>v. pf v \<noteq> None) row" "length row < 6"
  shows "loop_body pf row s =
    (s\<lparr>t := t s @ part pf 0 row, r := r s @ part pf 1 row, y := y s @ part pf 2 row,
       u := u s @ part pf 3 row, limit_under := limit_under s @ part pf 4 row,
       limit_upper := limit_upper s @ part pf 5 row\<rparr>, Some IndexError)"
  using assms by (auto simp add: loop_body_def floats_all append_item_def field_def part_def)

lemma loop_body_unparseable:
  assumes "\<not> list_all (\<lambda>v. pf v \<noteq> None) row"
  shows "\<exists>v. loop_body pf row s = (s, Some (ValueError v))"
  using floats_some_bad[OF assms] by (auto simp add: loop_body_def)

lemma render_empty:
  assumes "t s = []" "r s = []" "y s = []"
  shows "render s =
    (s\<lparr>fig1 := Some \<lparr>figsize = (10, 7), suptitle = Some (''Spring-Mass-Damper System'', 20)\<rparr>,
       ax1 := Some \<lparr>subplot = 211,
         lines = [\<lparr>xdata = [], ydata = [], color = ''royalblue'', label = Some ''Set-point'',
                   linestyle = Some ''--'', drawstyle = ''steps-pre''\<rparr>,
                  \<lparr>xdata = [], ydata = [], color = ''limegreen'', label = Some ''Plant output'',
                   linestyle = None, drawstyle = ''steps-pre''\<rparr>],
         xlim = None, xlabel = None, ylabel = None, tick_labelsize = None, legend = None\<rparr>\<rparr>,
     Some IndexError)"
  using assms
  by (simp add: render_def on_ax1_def on_ax2_def step_def set_xlim_t_def new_axes_def)

subsection \<open>Loading, then drawing\<close>


lemma script_failed: "load pf file init = (s, Some e) \<Longrightarrow> script pf file = (s, Some e)"
  by (simp add: script_def)

subsection \<open>Column alignment\<close>

lemma load_valid:
  assumes "list_all (valid_record pf) rows"
  shows "load pf (Some rows) init =
    (init\<lparr>t := map (field pf 0) rows, r := map (field pf 1) rows,
       y := map (field pf 2) rows, u := map (field pf 3) rows,
       limit_under := map (field pf 4) rows,
       limit_upper := map (field pf 5) rows\<rparr>, None)"
  using exec_loop_valid[OF assms, of init] by (simp add: load_def init_def)

lemma field_Some:
  assumes "valid_record pf row" "j < 6"
  shows "pf (row ! j) = Some (field pf j row)"
proof -
  from assms have "j < length row" by (simp add: valid_record_def)
  then have "row ! j \<in> set row" by simp
  with assms(1) have "pf (row ! j) \<noteq> None" by (auto simp add: valid_record_def list_all_iff)
  then show ?thesis by (auto simp add: field_def)
qed

lemma below_six: "j < 6 \<longleftrightarrow> j = 0 \<or> j = 1 \<or> j = 2 \<or> j = 3 \<or> j = 4 \<or> j = (5::nat)"
  by arith

text \<open>
  Claim C1. When every record of the file has six tokens or more and \<open>float\<close> accepts all of
  them, the loop ends without an exception, each of the six lists has as many elements as the
  file has records, and element \<open>i\<close> of list \<open>j\<close> is what \<open>float\<close> returned for token \<open>j\<close> of
  record \<open>i\<close>: file order is kept, nothing is sorted or dropped.
\<close>

theorem load_columns:
  assumes "list_all (valid_record pf) rows"
  shows "snd (load pf (Some rows) init) = None \<and>
         list_all (\<lambda>c. length c = length rows) (columns (fst (load pf (Some rows) init))) \<and>
         (\<forall>i<length rows. \<forall>j<6.
            pf (rows ! i ! j) = Some (columns (fst (load pf (Some rows) init)) ! j ! i))"
proof -
  have valid: "valid_record pf (rows ! i)" if "i < length rows" for i
    using assms that by (simp add: list_all_length)
  have "pf (rows ! i ! j) = Some (columns (fst (load pf (Some rows) init)) ! j ! i)"
    if "i < length rows" "j < 6" for i j
  proof -
    have "columns (fst (load pf (Some rows) init)) ! j ! i = field pf j (rows ! i)"
      using that by (auto simp add: load_valid[OF assms] columns_def below_six)
    then show ?thesis using field_Some[OF valid[OF that(1)] that(2)] by simp
  qed
  then show ?thesis by (simp add: load_valid[OF assms] columns_def)
qed

lemma decimal_tokens:
  "decimal ''0'' = Some (Fin 0)" "decimal ''1'' = Some (Fin 1)" "decimal ''2'' = Some (Fin 2)"
  "decimal ''3'' = Some (Fin 3)" "decimal ''4'' = Some (Fin 4)" "decimal ''5'' = Some (Fin 5)"
  "decimal ''6'' = Some (Fin 6)" "decimal ''-5'' = Some (Fin (- 5))"
  "decimal ''0.5'' = Some (Fin (1 / 2))"
  "decimal ''x'' = None"
  by (simp_all add: decimal_def unsigned_def digit_def)

lemma decimal_scenario: "list_all (valid_record decimal) scenario"
  by (simp add: scenario_def valid_record_def decimal_tokens del: not_None_eq)

theorem load_columns_witness:
  "list_all (valid_record decimal) scenario \<and>
   snd (load decimal (Some scenario) init) = None \<and>
   map length (columns (fst (load decimal (Some scenario) init))) = [3, 3, 3, 3, 3, 3] \<and>
   decimal (scenario ! 1 ! 2) = Some (columns (fst (load decimal (Some scenario) init)) ! 2 ! 1) \<and>
   decimal (scenario ! 1 ! 2) = Some (Fin (1 / 2))"
proof -
  have h: "list_all (valid_record decimal) scenario" by (rule decimal_scenario)
  have len: "length scenario = 3" by (simp add: scenario_def)
  from load_columns[OF h] have
    a: "snd (load decimal (Some scenario) init) = None" and
    b: "list_all (\<lambda>c. length c = 3) (columns (fst (load decimal (Some scenario) init)))" and
    c: "decimal (scenario ! 1 ! 2) = Some (columns (fst (load decimal (Some scenario) init)) ! 2 ! 1)"
    by (simp_all add: len)
  from b have "map length (columns (fst (load decimal (Some scenario) init))) = [3, 3, 3, 3, 3, 3]"
    by (simp add: columns_def)
  moreover have "decimal (scenario ! 1 ! 2) = Some (Fin (1 / 2))"
    by (simp add: scenario_def decimal_tokens)
  ultimately show ?thesis using h a c by simp
qed

subsection \<open>The empty table\<close>

text \<open>
  Claim C3, as the script behaves. For the empty file the loop ends normally with six empty
  lists, and drawing stops with \<open>IndexError\<close>: it is \<open>t[0]\<close> in \<open>ax1.set_xlim(t[0], t[-1])\<close>, the
  computation of the axis limits, that raises. By then the figure with its title and Panel A
  with two empty lines exist; Panel B does not, and \<open>plt.show()\<close> is never reached.
\<close>

theorem empty_table_stops_at_xlim:
  "script pf (Some []) =
     (init\<lparr>fig1 := Some \<lparr>figsize = (10, 7), suptitle = Some (''Spring-Mass-Damper System'', 20)\<rparr>,
        ax1 := Some \<lparr>subplot = 211,
          lines = [\<lparr>xdata = [], ydata = [], color = ''royalblue'', label = Some ''Set-point'',
                    linestyle = Some ''--'', drawstyle = ''steps-pre''\<rparr>,
                   \<lparr>xdata = [], ydata = [], color = ''limegreen'', label = Some ''Plant output'',
                    linestyle = None, drawstyle = ''steps-pre''\<rparr>],
          xlim = None, xlabel = None, ylabel = None, tick_labelsize = None, legend = None\<rparr>\<rparr>,
      Some IndexError) \<and>
   set_xlim_t (t (fst (load pf (Some []) init))) ax = Inl IndexError \<and>
   ax2 (fst (script pf (Some []))) = None \<and>
   \<not> shown (fst (script pf (Some [])))"
proof -
  have l: "load pf (Some []) init = (init, None)" by (simp add: load_def)
  have e: "t init = []" "r init = []" "y init = []" by (simp_all add: init_def)
  have s: "script pf (Some []) = render init" by (simp add: script_def l split: prod.splits option.splits)
  show ?thesis
    unfolding s l by (simp add: render_empty[OF e] set_xlim_t_def) (simp add: init_def)
qed

text \<open>
  The script has no \<open>EmptyDatasetError\<close> and no guard before drawing: on the empty file the
  exception is \<open>IndexError\<close>, and the figure and Panel A with two empty lines have been made.
\<close>

theorem empty_table_counterexample:
  "snd (script decimal (Some [])) = Some IndexError \<and>
   exc_name IndexError \<noteq> ''EmptyDatasetError'' \<and>
   fig1 (fst (script decimal (Some []))) \<noteq> None \<and>
   map_option (map xdata \<circ> lines) (ax1 (fst (script decimal (Some [])))) = Some [[], []]"
proof -
  have l: "load decimal (Some []) init = (init, None)" by (simp add: load_def)
  have e: "t init = []" "r init = []" "y init = []"
    by (simp_all add: init_def)
  have s: "script decimal (Some []) = render init" by (simp add: script_def l split: prod.splits option.splits)
  show ?thesis unfolding s by (simp add: render_empty[OF e])
qed

subsection \<open>A file with a record the loop refuses\<close>

lemma load_stops:
  assumes "list_all (valid_record pf) good"
    and "loop_body pf bad (fst (load pf (Some good) init)) = (s', Some e)"
  shows "load pf (Some (good @ bad # rest)) init = (s', Some e)"
proof -
  from load_valid[OF assms(1)] obtain s1 where s1: "load pf (Some good) init = (s1, None)"
    by blast
  then have "exec (map (loop_body pf) good) init = (s1, None)" by (simp add: load_def)
  moreover from assms(2) s1 have "loop_body pf bad s1 = (s', Some e)" by simp
  ultimately show ?thesis by (simp add: load_def exec_append)
qed

lemma load_short:
  assumes "list_all (valid_record pf) good" "list_all (\<lambda>v. pf v \<noteq> None) bad" "length bad < 6"
  shows "load pf (Some (good @ bad # rest)) init =
    (init\<lparr>t := map (field pf 0) good @ part pf 0 bad, r := map (field pf 1) good @ part pf 1 bad,
       y := map (field pf 2) good @ part pf 2 bad, u := map (field pf 3) good @ part pf 3 bad,
       limit_under := map (field pf 4) good @ part pf 4 bad,
       limit_upper := map (field pf 5) good @ part pf 5 bad\<rparr>, Some IndexError)"
  by (rule load_stops[OF assms(1)])
     (simp add: load_valid[OF assms(1)] loop_body_short[OF assms(2,3)])

lemma load_token:
  assumes "list_all (valid_record pf) good" "list_all (\<lambda>w. pf w \<noteq> None) pre" "pf v = None"
  shows "load pf (Some (good @ (pre @ v # post) # rest)) init =
    (fst (load pf (Some good) init), Some (ValueError v))"
  by (rule load_stops[OF assms(1)])
     (simp add: loop_body_def floats_first_bad[OF assms(2,3)])

lemma load_invalid:
  assumes "list_all (valid_record pf) good" "\<not> valid_record pf bad"
  shows "\<exists>e. load pf (Some (good @ bad # rest)) init =
    (init\<lparr>t := map (field pf 0) good @ part pf 0 bad, r := map (field pf 1) good @ part pf 1 bad,
       y := map (field pf 2) good @ part pf 2 bad, u := map (field pf 3) good @ part pf 3 bad,
       limit_under := map (field pf 4) good @ part pf 4 bad,
       limit_upper := map (field pf 5) good @ part pf 5 bad\<rparr>, Some e)"
proof (cases "list_all (\<lambda>v. pf v \<noteq> None) bad")
  case True
  with assms(2) have "length bad < 6" by (simp add: valid_record_def)
  from load_short[OF assms(1) True this] show ?thesis by blast
next
  case False
  then have none: "part pf j bad = []" for j by (simp add: part_def)
  from loop_body_unparseable[OF False] obtain v where
    "loop_body pf bad (fst (load pf (Some good) init)) = (fst (load pf (Some good) init), Some (ValueError v))"
    by blast
  from load_stops[OF assms(1) this]
  have "load pf (Some (good @ bad # rest)) init = (fst (load pf (Some good) init), Some (ValueError v))" .
  then show ?thesis by (simp add: load_valid[OF assms(1)] none)
qed

lemma init_fields:
  "fig1 (init\<lparr>t := a, r := b, y := c, u := d, limit_under := e, limit_upper := f\<rparr>) = None"
  "ax1 (init\<lparr>t := a, r := b, y := c, u := d, limit_under := e, limit_upper := f\<rparr>) = None"
  "ax2 (init\<lparr>t := a, r := b, y := c, u := d, limit_under := e, limit_upper := f\<rparr>) = None"
  "\<not> shown (init\<lparr>t := a, r := b, y := c, u := d, limit_under := e, limit_upper := f\<rparr>)"
  by (simp_all add: init_def)

text \<open>
  Claim C4, as the script behaves. When the records before record \<open>k\<close> are valid and record
  \<open>k\<close> has fewer than six tokens, all of them accepted by \<open>float\<close>, the script stops with
  \<open>IndexError\<close>, an exception that carries no record index. The run ends there: the records
  after \<open>k\<close> play no part in the outcome, no figure is made and nothing is shown.
\<close>

theorem short_record_index_error:
  assumes "list_all (valid_record pf) good" "list_all (\<lambda>v. pf v \<noteq> None) bad" "length bad < 6"
  shows "snd (script pf (Some (good @ bad # rest))) = Some IndexError \<and>
         script pf (Some (good @ bad # rest)) = script pf (Some (good @ [bad])) \<and>
         fig1 (fst (script pf (Some (good @ bad # rest)))) = None \<and>
         \<not> shown (fst (script pf (Some (good @ bad # rest))))"
  by (simp add: script_failed[OF load_short[OF assms]] init_fields)

lemma six: "valid_record decimal [''1'', ''2'', ''3'', ''4'', ''5'', ''6'']"
  by (simp add: valid_record_def decimal_tokens del: not_None_eq)

theorem short_record_index_error_witness:
  "list_all (valid_record decimal) [[''1'', ''2'', ''3'', ''4'', ''5'', ''6'']] \<and>
   list_all (\<lambda>v. decimal v \<noteq> None) [''1'', ''2'', ''3''] \<and>
   length [''1'', ''2'', ''3''] < (6::nat) \<and>
   snd (script decimal (Some [[''1'', ''2'', ''3'', ''4'', ''5'', ''6''], [''1'', ''2'', ''3''],
                              [''1'', ''2'', ''3'', ''4'', ''5'', ''6'']])) = Some IndexError \<and>
   fig1 (fst (script decimal (Some [[''1'', ''2'', ''3'', ''4'', ''5'', ''6''], [''1'', ''2'', ''3''],
                              [''1'', ''2'', ''3'', ''4'', ''5'', ''6'']]))) = None"
proof -
  have a: "list_all (valid_record decimal) [[''1'', ''2'', ''3'', ''4'', ''5'', ''6'']]"
    by (simp add: six)
  have b: "list_all (\<lambda>v. decimal v \<noteq> None) [''1'', ''2'', ''3'']"
    by (simp add: decimal_tokens del: not_None_eq)
  have c: "length [''1'', ''2'', ''3''] < (6::nat)" by simp
  from short_record_index_error[OF a b c, of "[[''1'', ''2'', ''3'', ''4'', ''5'', ''6'']]"]
  have "snd (script decimal (Some [[''1'', ''2'', ''3'', ''4'', ''5'', ''6''], [''1'', ''2'', ''3''],
                              [''1'', ''2'', ''3'', ''4'', ''5'', ''6'']])) = Some IndexError"
    and "fig1 (fst (script decimal (Some [[''1'', ''2'', ''3'', ''4'', ''5'', ''6''], [''1'', ''2'', ''3''],
                              [''1'', ''2'', ''3'', ''4'', ''5'', ''6'']]))) = None"
    unfolding append.simps by blast+
  with a b c show ?thesis by blast
qed

text \<open>
  The script has no \<open>MalformedRecordError\<close>: a short record at index 0 and a short record at
  index 1 end the run with the same exception, \<open>IndexError\<close>, which names neither index.
\<close>

theorem short_record_counterexample:
  "snd (script decimal (Some [[''1'', ''2'', ''3'']])) = Some IndexError \<and>
   snd (script decimal (Some [[''1'', ''2'', ''3'', ''4'', ''5'', ''6''], [''1'', ''2'', ''3'']]))
     = Some IndexError \<and>
   exc_name IndexError \<noteq> ''MalformedRecordError''"
proof -
  have b: "list_all (\<lambda>v. decimal v \<noteq> None) [''1'', ''2'', ''3'']"
    by (simp add: decimal_tokens del: not_None_eq)
  have c: "length [''1'', ''2'', ''3''] < (6::nat)" by simp
  have "list_all (valid_record decimal) []" by simp
  from load_short[OF this b c, of "[]"]
  have 0: "snd (script decimal (Some [[''1'', ''2'', ''3'']])) = Some IndexError"
    by (simp add: script_def)
  have "list_all (valid_record decimal) [[''1'', ''2'', ''3'', ''4'', ''5'', ''6'']]"
    by (simp add: six)
  from load_short[OF this b c, of "[]"]
  have 1: "snd (script decimal (Some [[''1'', ''2'', ''3'', ''4'', ''5'', ''6''], [''1'', ''2'', ''3'']]))
     = Some IndexError"
    by (simp add: script_def)
  from 0 1 show ?thesis by simp
qed

text \<open>
  Claim C5, as the script behaves. When the records before record \<open>k\<close> are valid and token \<open>j\<close>
  of record \<open>k\<close> is the first one \<open>float\<close> refuses, the script stops with \<open>ValueError\<close>, whose
  message quotes that token and gives neither \<open>k\<close> nor \<open>j\<close>. The lists hold the records before
  \<open>k\<close> and nothing of record \<open>k\<close>; no figure is made and nothing is shown.
\<close>

theorem bad_token_value_error:
  assumes "list_all (valid_record pf) good" "list_all (\<lambda>w. pf w \<noteq> None) pre" "pf v = None"
  shows "snd (script pf (Some (good @ (pre @ v # post) # rest))) = Some (ValueError v) \<and>
         fst (script pf (Some (good @ (pre @ v # post) # rest))) = fst (load pf (Some good) init) \<and>
         fig1 (fst (script pf (Some (good @ (pre @ v # post) # rest)))) = None \<and>
         \<not> shown (fst (script pf (Some (good @ (pre @ v # post) # rest))))"
  by (simp add: script_failed[OF load_token[OF assms]] load_valid[OF assms(1)] init_fields)

theorem bad_token_value_error_witness:
  "list_all (valid_record decimal) [[''1'', ''2'', ''3'', ''4'', ''5'', ''6'']] \<and>
   list_all (\<lambda>w. decimal w \<noteq> None) [''1''] \<and> decimal ''x'' = None \<and>
   snd (script decimal (Some [[''1'', ''2'', ''3'', ''4'', ''5'', ''6''],
                              [''1'', ''x'', ''3'', ''4'', ''5'', ''6'']])) = Some (ValueError ''x'') \<and>
   t (fst (script decimal (Some [[''1'', ''2'', ''3'', ''4'', ''5'', ''6''],
                              [''1'', ''x'', ''3'', ''4'', ''5'', ''6'']]))) = [Fin 1]"
proof -
  have a: "list_all (valid_record decimal) [[''1'', ''2'', ''3'', ''4'', ''5'', ''6'']]"
    by (simp add: six)
  have b: "list_all (\<lambda>w. decimal w \<noteq> None) [''1'']"
    by (simp add: decimal_tokens del: not_None_eq)
  have c: "decimal ''x'' = None" by (simp add: decimal_tokens)
  have d: "t (fst (load decimal (Some [[''1'', ''2'', ''3'', ''4'', ''5'', ''6'']]) init)) = [Fin 1]"
    by (simp add: load_valid[OF a] field_def decimal_tokens)
  from bad_token_value_error[OF a b c, of "[''3'', ''4'', ''5'', ''6'']" "[]"]
  show ?thesis using a b c d by simp
qed

text \<open>
  The script has no \<open>ParseError\<close>: the token \<open>x\<close> at record 0, position 0 and at record 1,
  position 1 ends the run with the same exception, \<open>ValueError\<close> quoting \<open>x\<close>.
\<close>

theorem bad_token_counterexample:
  "snd (script decimal (Some [[''x'', ''2'', ''3'', ''4'', ''5'', ''6'']])) = Some (ValueError ''x'') \<and>
   snd (script decimal (Some [[''1'', ''2'', ''3'', ''4'', ''5'', ''6''],
                              [''1'', ''x'', ''3'', ''4'', ''5'', ''6'']])) = Some (ValueError ''x'') \<and>
   exc_name (ValueError ''x'') \<noteq> ''ParseError''"
proof -
  have c: "decimal ''x'' = None" by (simp add: decimal_tokens)
  have "list_all (valid_record decimal) []" "list_all (\<lambda>w. decimal w \<noteq> None) []" by simp_all
  from load_token[OF this c, of "[''2'', ''3'', ''4'', ''5'', ''6'']" "[]"]
  have 0: "snd (script decimal (Some [[''x'', ''2'', ''3'', ''4'', ''5'', ''6'']])) = Some (ValueError ''x'')"
    by (simp add: script_def)
  have "list_all (valid_record decimal) [[''1'', ''2'', ''3'', ''4'', ''5'', ''6'']]"
       "list_all (\<lambda>w. decimal w \<noteq> None) [''1'']"
    by (simp_all add: six decimal_tokens del: not_None_eq)
  from load_token[OF this c, of "[''3'', ''4'', ''5'', ''6'']" "[]"]
  have 1: "snd (script decimal (Some [[''1'', ''2'', ''3'', ''4'', ''5'', ''6''],
                              [''1'', ''x'', ''3'', ''4'', ''5'', ''6'']])) = Some (ValueError ''x'')"
    by (simp add: script_def)
  from 0 1 show ?thesis by simp
qed

subsection \<open>What a failed load leaves behind\<close>

lemma first_invalid:
  assumes "\<not> list_all (valid_record pf) rows"
  shows "\<exists>good bad rest. rows = good @ bad # rest \<and> list_all (valid_record pf) good \<and>
           \<not> valid_record pf bad"
proof -
  from assms have "\<exists>row \<in> set rows. \<not> valid_record pf row" by (simp add: list_all_iff)
  from split_list_first_prop[OF this] obtain good bad rest where
    "rows = good @ bad # rest" "\<not> valid_record pf bad" "\<forall>row \<in> set good. \<not> \<not> valid_record pf row"
    by blast
  then show ?thesis by (auto simp add: list_all_iff)
qed

lemma load_fails:
  assumes "snd (load pf (Some rows) init) \<noteq> None"
  shows "\<not> list_all (valid_record pf) rows"
  using assms load_valid[of pf rows] by auto

lemma columns_init:
  "columns (init\<lparr>t := a, r := b, y := c, u := d, limit_under := e, limit_upper := f\<rparr>) =
     [a, b, c, d, e, f]"
  by (simp add: columns_def)

text \<open>
  Claim C6, as the script behaves. Whenever loading raises, the script ends with that
  exception before any drawing: no figure is made and nothing is shown. The module-level
  lists are not rolled back. After a failed \<open>open\<close> they are empty. Otherwise the file has a
  first record that is not valid, and the lists hold every field of the records before it;
  when \<open>float\<close> accepted that whole record, which then has fewer than six tokens, the leading
  lists hold its fields as well.
\<close>

theorem failed_load_leaves_lists:
  assumes "snd (load pf file init) \<noteq> None"
  shows "script pf file = load pf file init \<and>
         fig1 (fst (script pf file)) = None \<and> \<not> shown (fst (script pf file)) \<and>
         (file = None \<and> columns (fst (script pf file)) = [[], [], [], [], [], []] \<or>
          (\<exists>good bad rest. file = Some (good @ bad # rest) \<and>
             list_all (valid_record pf) good \<and> \<not> valid_record pf bad \<and>
             columns (fst (script pf file)) =
               [map (field pf 0) good @ part pf 0 bad, map (field pf 1) good @ part pf 1 bad,
                map (field pf 2) good @ part pf 2 bad, map (field pf 3) good @ part pf 3 bad,
                map (field pf 4) good @ part pf 4 bad, map (field pf 5) good @ part pf 5 bad]))"
proof -
  from assms obtain s e where l: "load pf file init = (s, Some e)"
    by (cases "load pf file init") auto
  then have same: "script pf file = load pf file init" by (simp add: script_failed)
  show ?thesis
  proof (cases "file")
    case None
    then show ?thesis unfolding same by (simp add: load_def) (simp add: init_def columns_def)
  next
    case (Some rows)
    with assms have "\<not> list_all (valid_record pf) rows" by (simp add: load_fails)
    from first_invalid[OF this] obtain good bad rest where
      rows: "rows = good @ bad # rest" and good: "list_all (valid_record pf) good"
      and bad: "\<not> valid_record pf bad"
      by blast
    from load_invalid[OF good bad, of rest] obtain e' where
      "load pf (Some (good @ bad # rest)) init =
        (init\<lparr>t := map (field pf 0) good @ part pf 0 bad, r := map (field pf 1) good @ part pf 1 bad,
           y := map (field pf 2) good @ part pf 2 bad, u := map (field pf 3) good @ part pf 3 bad,
           limit_under := map (field pf 4) good @ part pf 4 bad,
           limit_upper := map (field pf 5) good @ part pf 5 bad\<rparr>, Some e')"
      by blast
    with Some rows good bad show ?thesis
      unfolding same by (simp add: init_fields columns_init) blast
  qed
qed

theorem failed_load_leaves_lists_witness:
  "snd (load decimal (Some [[''1'', ''2'', ''3'']]) init) \<noteq> None \<and>
   fig1 (fst (script decimal (Some [[''1'', ''2'', ''3'']]))) = None \<and>
   columns (fst (script decimal (Some [[''1'', ''2'', ''3'']]))) = [[Fin 1], [Fin 2], [Fin 3], [], [], []]"
proof -
  have b: "list_all (\<lambda>v. decimal v \<noteq> None) [''1'', ''2'', ''3'']"
    by (simp add: decimal_tokens del: not_None_eq)
  have c: "length [''1'', ''2'', ''3''] < (6::nat)" by simp
  have "list_all (valid_record decimal) []" by simp
  from load_short[OF this b c, of "[]"]
  have h: "snd (load decimal (Some [[''1'', ''2'', ''3'']]) init) \<noteq> None" by simp
  have p: "part decimal 0 [''1'', ''2'', ''3''] = [Fin 1]" "part decimal (Suc 0) [''1'', ''2'', ''3''] = [Fin 2]"
    "part decimal 2 [''1'', ''2'', ''3''] = [Fin 3]" "part decimal 3 [''1'', ''2'', ''3''] = []"
    "part decimal 4 [''1'', ''2'', ''3''] = []" "part decimal 5 [''1'', ''2'', ''3''] = []"
    by (simp_all add: part_def field_def decimal_tokens del: not_None_eq)
  from failed_load_leaves_lists[OF h]
  have f: "fig1 (fst (script decimal (Some [[''1'', ''2'', ''3'']]))) = None" by blast
  from failed_load_leaves_lists[OF h] obtain good bad rest where
    d: "Some [[''1'', ''2'', ''3'']] = Some (good @ bad # rest)" and
    cs: "columns (fst (script decimal (Some [[''1'', ''2'', ''3'']]))) =
               [map (field decimal 0) good @ part decimal 0 bad, map (field decimal 1) good @ part decimal 1 bad,
                map (field decimal 2) good @ part decimal 2 bad, map (field decimal 3) good @ part decimal 3 bad,
                map (field decimal 4) good @ part decimal 4 bad, map (field decimal 5) good @ part decimal 5 bad]"
    by blast
  from d have "good = []" "bad = [''1'', ''2'', ''3'']"
    by (simp_all add: Cons_eq_append_conv)
  with cs have "columns (fst (script decimal (Some [[''1'', ''2'', ''3'']]))) = [[Fin 1], [Fin 2], [Fin 3], [], [], []]"
    by (simp add: p)
  with h f show ?thesis by blast
qed

text \<open>
  After a valid record and a record of three tokens the first three lists have two elements
  and the last three have one: the lists are filled beyond the last valid record, and
  unevenly.
\<close>

theorem partial_lists_counterexample:
  "snd (script decimal (Some [[''1'', ''2'', ''3'', ''4'', ''5'', ''6''], [''1'', ''2'', ''3'']])) =
     Some IndexError \<and>
   columns (fst (script decimal (Some [[''1'', ''2'', ''3'', ''4'', ''5'', ''6''], [''1'', ''2'', ''3'']]))) =
     [[Fin 1, Fin 1], [Fin 2, Fin 2], [Fin 3, Fin 3], [Fin 4], [Fin 5], [Fin 6]]"
proof -
  have a: "list_all (valid_record decimal) [[''1'', ''2'', ''3'', ''4'', ''5'', ''6'']]"
    by (simp add: six)
  have b: "list_all (\<lambda>v. decimal v \<noteq> None) [''1'', ''2'', ''3'']"
    by (simp add: decimal_tokens del: not_None_eq)
  have c: "length [''1'', ''2'', ''3''] < (6::nat)" by simp
  have p: "part decimal 0 [''1'', ''2'', ''3''] = [Fin 1]" "part decimal (Suc 0) [''1'', ''2'', ''3''] = [Fin 2]"
    "part decimal 2 [''1'', ''2'', ''3''] = [Fin 3]" "part decimal 3 [''1'', ''2'', ''3''] = []"
    "part decimal 4 [''1'', ''2'', ''3''] = []" "part decimal 5 [''1'', ''2'', ''3''] = []"
    by (simp_all add: part_def field_def decimal_tokens del: not_None_eq)
  from script_failed[OF load_short[OF a b c, of "[]"]]
  show ?thesis by (simp add: columns_init p) (simp add: field_def decimal_tokens)
qed

subsection \<open>Tokens beyond the sixth\<close>

lemma valid_take: "valid_record pf row \<Longrightarrow> valid_record pf (take 6 row)"
  by (auto simp add: valid_record_def list_all_iff dest: in_set_takeD)

lemma field_take: "j < 6 \<Longrightarrow> field pf j (take 6 row) = field pf j row"
  by (simp add: field_def)

text \<open>
  Claim C7, as the script behaves. When every record has six tokens or more and \<open>float\<close>
  accepts every token, those beyond the sixth included, loading succeeds and gives the same
  lists as the file whose records are cut to their first six tokens; the whole script then
  gives the same result too.
\<close>

theorem extra_fields_ignored:
  assumes "list_all (valid_record pf) rows"
  shows "snd (load pf (Some rows) init) = None \<and>
         load pf (Some (map (take 6) rows)) init = load pf (Some rows) init \<and>
         script pf (Some (map (take 6) rows)) = script pf (Some rows)"
proof -
  from assms have "list_all (valid_record pf) (map (take 6) rows)"
    by (simp add: list_all_iff valid_take)
  from load_valid[OF this] load_valid[OF assms]
  have "load pf (Some (map (take 6) rows)) init = load pf (Some rows) init"
    by (simp add: o_def field_take)
  then show ?thesis by (simp add: load_valid[OF assms] script_def)
qed

theorem extra_fields_ignored_witness:
  "list_all (valid_record decimal) [[''1'', ''2'', ''3'', ''4'', ''5'', ''6'', ''0.5'']] \<and>
   snd (load decimal (Some [[''1'', ''2'', ''3'', ''4'', ''5'', ''6'', ''0.5'']]) init) = None \<and>
   load decimal (Some [[''1'', ''2'', ''3'', ''4'', ''5'', ''6'']]) init =
     load decimal (Some [[''1'', ''2'', ''3'', ''4'', ''5'', ''6'', ''0.5'']]) init"
proof -
  have h: "list_all (valid_record decimal) [[''1'', ''2'', ''3'', ''4'', ''5'', ''6'', ''0.5'']]"
    by (simp add: valid_record_def decimal_tokens del: not_None_eq)
  from extra_fields_ignored[OF h] show ?thesis using h by simp
qed

text \<open>
  \<open>float\<close> is applied to every token of a record before any is used: a seventh token that is
  no number makes the load fail, although the record cut to six tokens loads.
\<close>

theorem extra_field_counterexample:
  "6 \<le> length [''1'', ''2'', ''3'', ''4'', ''5'', ''6'', ''x''] \<and>
   snd (load decimal (Some [[''1'', ''2'', ''3'', ''4'', ''5'', ''6'', ''x'']]) init) =
     Some (ValueError ''x'') \<and>
   snd (load decimal (Some (map (take 6) [[''1'', ''2'', ''3'', ''4'', ''5'', ''6'', ''x'']])) init) = None"
proof -
  have c: "decimal ''x'' = None" by (simp add: decimal_tokens)
  have "list_all (valid_record decimal) []" by simp
  moreover have "list_all (\<lambda>w. decimal w \<noteq> None) [''1'', ''2'', ''3'', ''4'', ''5'', ''6'']"
    by (simp add: decimal_tokens del: not_None_eq)
  ultimately have "load decimal (Some ([] @ ([''1'', ''2'', ''3'', ''4'', ''5'', ''6''] @ ''x'' # []) # [])) init =
    (fst (load decimal (Some []) init), Some (ValueError ''x''))"
    using c by (rule load_token)
  then have 1: "snd (load decimal (Some [[''1'', ''2'', ''3'', ''4'', ''5'', ''6'', ''x'']]) init) =
     Some (ValueError ''x'')" by simp
  have "list_all (valid_record decimal) [[''1'', ''2'', ''3'', ''4'', ''5'', ''6'']]"
    by (simp add: six)
  from load_valid[OF this]
  have 2: "snd (load decimal (Some (map (take 6) [[''1'', ''2'', ''3'', ''4'', ''5'', ''6'', ''x'']])) init) = None"
    by simp
  from 1 2 show ?thesis by simp
qed

subsection \<open>Drawing a loaded table\<close>

lemma table_lengths:
  "list_all (\<lambda>c. length c = n) (columns s) \<longleftrightarrow>
   length (t s) = n \<and> length (r s) = n \<and> length (y s) = n \<and> length (u s) = n \<and>
   length (limit_under s) = n \<and> length (limit_upper s) = n"
  by (simp add: columns_def)

lemma render_drawn:
  assumes "list_all (\<lambda>c. length c = n) (columns s)" "0 < n"
    and "set_xlim (t s ! 0) (t s ! (n - 1)) = Inr lims"
  shows "render s =
    (s\<lparr>fig1 := Some \<lparr>figsize = (10, 7), suptitle = Some (''Spring-Mass-Damper System'', 20)\<rparr>,
       ax1 := Some \<lparr>subplot = 211,
         lines = [\<lparr>xdata = t s, ydata = r s, color = ''royalblue'', label = Some ''Set-point'',
                   linestyle = Some ''--'', drawstyle = ''steps-pre''\<rparr>,
                  \<lparr>xdata = t s, ydata = y s, color = ''limegreen'', label = Some ''Plant output'',
                   linestyle = None, drawstyle = ''steps-pre''\<rparr>],
         xlim = Some lims, xlabel = None,
         ylabel = Some (''Displacement [m]'', 15), tick_labelsize = Some 13,
         legend = Some (15, ''upper left'')\<rparr>,
       ax2 := Some \<lparr>subplot = 212,
         lines = [\<lparr>xdata = t s, ydata = limit_upper s, color = ''red'', label = Some ''Limit'',
                   linestyle = Some ''--'', drawstyle = ''steps-pre''\<rparr>,
                  \<lparr>xdata = t s, ydata = limit_under s, color = ''red'', label = None,
                   linestyle = Some ''--'', drawstyle = ''steps-pre''\<rparr>,
                  \<lparr>xdata = t s, ydata = u s, color = ''orange'', label = Some ''Control input'',
                   linestyle = None, drawstyle = ''steps-pre''\<rparr>],
         xlim = Some lims, xlabel = Some (''Time [s]'', 15),
         ylabel = Some (''Force [N]'', 15), tick_labelsize = Some 13,
         legend = Some (15, ''upper left'')\<rparr>,
       shown := True\<rparr>, None)"
proof -
  from assms(1,2) obtain x xs where ts: "t s = x # xs" by (cases "t s") (auto simp add: table_lengths)
  with assms(1) have "t s ! 0 = x" "t s ! (n - 1) = last (x # xs)"
    by (auto simp add: table_lengths last_conv_nth)
  with assms(3) have "set_xlim x (last (x # xs)) = Inr lims" by simp
  with assms(1) ts show ?thesis
    by (simp add: table_lengths render_def on_ax1_def on_ax2_def step_def set_xlim_t_def new_axes_def)
qed

lemma render_refused:
  assumes "list_all (\<lambda>c. length c = n) (columns s)" "0 < n"
    and "set_xlim (t s ! 0) (t s ! (n - 1)) = Inl e"
  shows "render s =
    (s\<lparr>fig1 := Some \<lparr>figsize = (10, 7), suptitle = Some (''Spring-Mass-Damper System'', 20)\<rparr>,
       ax1 := Some \<lparr>subplot = 211,
         lines = [\<lparr>xdata = t s, ydata = r s, color = ''royalblue'', label = Some ''Set-point'',
                   linestyle = Some ''--'', drawstyle = ''steps-pre''\<rparr>,
                  \<lparr>xdata = t s, ydata = y s, color = ''limegreen'', label = Some ''Plant output'',
                   linestyle = None, drawstyle = ''steps-pre''\<rparr>],
         xlim = None, xlabel = None, ylabel = None, tick_labelsize = None, legend = None\<rparr>\<rparr>,
     Some e)"
proof -
  from assms(1,2) obtain x xs where ts: "t s = x # xs" by (cases "t s") (auto simp add: table_lengths)
  with assms(1) have "t s ! 0 = x" "t s ! (n - 1) = last (x # xs)"
    by (auto simp add: table_lengths last_conv_nth)
  with assms(3) have "set_xlim x (last (x # xs)) = Inl e" by simp
  with assms(1) ts show ?thesis
    by (simp add: table_lengths render_def on_ax1_def on_ax2_def step_def set_xlim_t_def new_axes_def)
qed

lemma set_xlim_finite:
  "isfinite a \<Longrightarrow> isfinite b \<Longrightarrow> \<exists>lims. set_xlim a b = Inr lims"
  by (cases a; cases b) (auto simp add: set_xlim_def split: prod.splits)

lemma set_xlim_not_finite:
  "\<not> (isfinite a \<and> isfinite b) \<Longrightarrow> set_xlim a b = Inl LimitError"
  by (cases a; cases b) (auto simp add: set_xlim_def)







lemma load_scenario:
  "load decimal (Some scenario) init =
    (init\<lparr>t := [Fin 0, Fin 1, Fin 2], r := [Fin 1, Fin 1, Fin 1], y := [Fin 0, Fin (1 / 2), Fin 1],
       u := [Fin 0, Fin 2, Fin 2], limit_under := [Fin (- 5), Fin (- 5), Fin (- 5)],
       limit_upper := [Fin 5, Fin 5, Fin 5]\<rparr>, None)"
  by (simp add: load_valid[OF decimal_scenario]) (simp add: scenario_def field_def decimal_tokens)

subsection \<open>Axis limits\<close>





subsection \<open>The limit lines of Panel B\<close>

text \<open>
  Claim C9, as the script behaves. For a table whose six lists all have length \<open>n \<ge> 1\<close> and
  whose first and last times are finite, Panel B holds three lines: the upper limit, the
  lower limit and the control input. The two limit lines are dashed \<open>steps-pre\<close> lines of
  the same colour, red. The upper one is labelled \<open>Limit\<close>, the lower one has no label, so
  the legend of Panel B lists \<open>Limit\<close> exactly once.
\<close>

theorem limit_lines:
  assumes "list_all (\<lambda>c. length c = n) (columns s)" "0 < n"
    and "isfinite (t s ! 0)" "isfinite (t s ! (n - 1))"
  shows "\<exists>ax. ax2 (fst (render s)) = Some ax \<and> snd (render s) = None \<and>
           map ydata (lines ax) = [limit_upper s, limit_under s, u s] \<and>
           map linestyle (take 2 (lines ax)) = [Some ''--'', Some ''--''] \<and>
           map drawstyle (take 2 (lines ax)) = [''steps-pre'', ''steps-pre''] \<and>
           map color (take 2 (lines ax)) = [''red'', ''red''] \<and>
           map label (lines ax) = [Some ''Limit'', None, Some ''Control input''] \<and>
           legend_labels ax = [''Limit'', ''Control input''] \<and>
           count_list (legend_labels ax) ''Limit'' = 1"
proof -
  from set_xlim_finite[OF assms(3,4)] obtain lims where
    "set_xlim (t s ! 0) (t s ! (n - 1)) = Inr lims" by blast
  from render_drawn[OF assms(1,2) this] show ?thesis by (simp add: legend_labels_def)
qed

theorem limit_lines_witness:
  "list_all (\<lambda>c. length c = 3) (columns (fst (load decimal (Some scenario) init))) \<and>
   isfinite (t (fst (load decimal (Some scenario) init)) ! 0) \<and>
   isfinite (t (fst (load decimal (Some scenario) init)) ! (3 - 1)) \<and>
   (\<exists>ax. ax2 (fst (render (fst (load decimal (Some scenario) init)))) = Some ax \<and>
      map ydata (lines ax) = [[Fin 5, Fin 5, Fin 5], [Fin (- 5), Fin (- 5), Fin (- 5)],
                               [Fin 0, Fin 2, Fin 2]] \<and>
      map label (lines ax) = [Some ''Limit'', None, Some ''Control input''] \<and>
      count_list (legend_labels ax) ''Limit'' = 1)"
proof -
  have h: "list_all (\<lambda>c. length c = 3) (columns (fst (load decimal (Some scenario) init)))"
    by (simp add: load_scenario columns_def)
  have pos: "0 < (3::nat)" by simp
  have a: "isfinite (t (fst (load decimal (Some scenario) init)) ! 0)"
    and b: "isfinite (t (fst (load decimal (Some scenario) init)) ! (3 - 1))"
    by (simp_all add: load_scenario)
  from limit_lines[OF h pos a b] obtain ax where
    "ax2 (fst (render (fst (load decimal (Some scenario) init)))) = Some ax"
    "map ydata (lines ax) =
       [limit_upper (fst (load decimal (Some scenario) init)),
        limit_under (fst (load decimal (Some scenario) init)),
        u (fst (load decimal (Some scenario) init))]"
    "map label (lines ax) = [Some ''Limit'', None, Some ''Control input'']"
    "count_list (legend_labels ax) ''Limit'' = 1"
    by auto
  then have "\<exists>ax. ax2 (fst (render (fst (load decimal (Some scenario) init)))) = Some ax \<and>
      map ydata (lines ax) = [[Fin 5, Fin 5, Fin 5], [Fin (- 5), Fin (- 5), Fin (- 5)],
                               [Fin 0, Fin 2, Fin 2]] \<and>
      map label (lines ax) = [Some ''Limit'', None, Some ''Control input''] \<and>
      count_list (legend_labels ax) ''Limit'' = 1"
    by (simp add: load_scenario)
  with h a b show ?thesis by blast
qed

text \<open>
  A table of one record whose time is NaN: \<open>ax1.set_xlim\<close> raises, the script stops there
  and Panel B is never made.
\<close>

theorem nan_time_counterexample:
  "list_all (\<lambda>c. length c = 1)
     (columns (init\<lparr>t := [NaN], r := [Fin 1], y := [Fin 0], u := [Fin 0],
                     limit_under := [Fin (- 5)], limit_upper := [Fin 5]\<rparr>)) \<and>
   snd (render (init\<lparr>t := [NaN], r := [Fin 1], y := [Fin 0], u := [Fin 0],
                     limit_under := [Fin (- 5)], limit_upper := [Fin 5]\<rparr>)) = Some LimitError \<and>
   ax2 (fst (render (init\<lparr>t := [NaN], r := [Fin 1], y := [Fin 0], u := [Fin 0],
                     limit_under := [Fin (- 5)], limit_upper := [Fin 5]\<rparr>))) = None"
proof -
  define s0 where "s0 = init\<lparr>t := [NaN], r := [Fin 1], y := [Fin 0], u := [Fin 0],
       limit_under := [Fin (- 5)], limit_upper := [Fin 5]\<rparr>"
  have h: "list_all (\<lambda>c. length c = 1) (columns s0)" by (simp add: columns_def s0_def)
  have pos: "0 < (1::nat)" by simp
  have l: "set_xlim (t s0 ! 0) (t s0 ! (1 - 1)) = Inl LimitError"
    by (simp add: s0_def set_xlim_def)
  have n: "ax2 s0 = None" by (simp add: s0_def init_def)
  show ?thesis
    unfolding s0_def[symmetric] using h n by (simp add: render_refused[OF h pos l])
qed

subsection \<open>Where the steps of the drawn lines stand\<close>








lemma append_item_axes:
  assumes "\<And>f s. ax1 (upd f s) = ax1 s" "\<And>f s. ax2 (upd f s) = ax2 s"
  shows "ax1 (fst (append_item upd nums i s)) = ax1 s \<and> ax2 (fst (append_item upd nums i s)) = ax2 s"
  by (simp add: append_item_def assms)












subsection \<open>Tokens \<open>float\<close> accepts beyond plain numerals\<close>

text \<open>
  Claim C10. The loop puts no check of its own between \<open>float(v)\<close> and \<open>append\<close>: for the
  record \<open>nan, inf, -inf, 1e3, " 2", 1\<close>, whenever \<open>float\<close> accepts the six tokens the load
  succeeds and the lists hold the values \<open>float\<close> returned, finite or not. With \<open>float\<close> read
  after the Python documentation these are NaN, the two infinities, 1000, 2 and 1.
\<close>

theorem float_values_appended:
  assumes "pf ''nan'' = Some a" "pf ''inf'' = Some b" "pf ''-inf'' = Some c"
    and "pf ''1e3'' = Some d" "pf '' 2'' = Some e" "pf ''1'' = Some f"
  shows "load pf (Some [[''nan'', ''inf'', ''-inf'', ''1e3'', '' 2'', ''1'']]) init =
    (init\<lparr>t := [a], r := [b], y := [c], u := [d], limit_under := [e], limit_upper := [f]\<rparr>, None)"
proof -
  from assms have "list_all (valid_record pf) [[''nan'', ''inf'', ''-inf'', ''1e3'', '' 2'', ''1'']]"
    by (simp add: valid_record_def)
  from load_valid[OF this] assms show ?thesis by (simp add: field_def)
qed

lemma overflow_limit_large: "2 ^ 1023 \<le> overflow_limit"
proof -
  have "(2::rat) ^ 970 \<le> 2 ^ 1023" by (rule power_increasing) simp_all
  moreover have "(2::rat) ^ 1024 = 2 * 2 ^ 1023" by (simp only: power_Suc[symmetric]) simp
  ultimately show ?thesis unfolding overflow_limit_def by linarith
qed

lemma below_overflow: "q \<le> 1000 \<Longrightarrow> \<not> overflow_limit \<le> q"
proof -
  assume "q \<le> 1000"
  have "(1000::rat) < 2 ^ 10" by simp
  also have "(2::rat) ^ 10 \<le> 2 ^ 1023" by (rule power_increasing) simp_all
  finally have "(1000::rat) < 2 ^ 1023" .
  with overflow_limit_large \<open>q \<le> 1000\<close> show ?thesis by linarith
qed

lemma above_underflow: "1 \<le> q \<Longrightarrow> \<not> q \<le> underflow_limit"
proof -
  assume "1 \<le> q"
  have "(1::rat) < 2 ^ 1075" by (rule one_less_power) simp_all
  moreover have "(0::rat) < 2 ^ 1075" by (rule zero_less_power) simp
  ultimately have "1 / 2 ^ 1075 < (1::rat)" by (simp only: divide_less_eq_1_pos)
  with \<open>1 \<le> q\<close> show ?thesis unfolding underflow_limit_def by linarith
qed

lemma py_float_tokens:
  "py_float ''nan'' = Some NaN" "py_float ''inf'' = Some PosInf" "py_float ''-inf'' = Some NegInf"
  "py_float ''1e3'' = Some (Fin 1000)" "py_float '' 2'' = Some (Fin 2)" "py_float ''1'' = Some (Fin 1)"
  by (simp_all add: py_float_def strip_def is_space_def lower_def floatnumber_def number_def
        exponent_def digitpart_def digit_def below_overflow above_underflow)

theorem float_values_appended_witness:
  "py_float ''nan'' = Some NaN \<and> py_float ''inf'' = Some PosInf \<and> py_float ''-inf'' = Some NegInf \<and>
   py_float ''1e3'' = Some (Fin 1000) \<and> py_float '' 2'' = Some (Fin 2) \<and>
   py_float ''1'' = Some (Fin 1) \<and>
   load py_float (Some [[''nan'', ''inf'', ''-inf'', ''1e3'', '' 2'', ''1'']]) init =
    (init\<lparr>t := [NaN], r := [PosInf], y := [NegInf], u := [Fin 1000], limit_under := [Fin 2],
          limit_upper := [Fin 1]\<rparr>, None)"
  using float_values_appended[OF py_float_tokens] py_float_tokens by simp

text \<open>The same holds for a time: the record \<open>nan, 1, 0, 0, -5, 5\<close> loads, and its table is
  the one of one record with time NaN drawn above.\<close>

lemma nan_time_loads:
  "load py_float (Some [[''nan'', ''1'', ''0'', ''0'', ''-5'', ''5'']]) init =
    (init\<lparr>t := [NaN], r := [Fin 1], y := [Fin 0], u := [Fin 0],
          limit_under := [Fin (- 5)], limit_upper := [Fin 5]\<rparr>, None)"
proof -
  have tok: "py_float ''nan'' = Some NaN" "py_float ''1'' = Some (Fin 1)"
    "py_float ''0'' = Some (Fin 0)" "py_float ''-5'' = Some (Fin (- 5))"
    "py_float ''5'' = Some (Fin 5)"
    by (simp_all add: py_float_def strip_def is_space_def lower_def floatnumber_def number_def
          exponent_def digitpart_def digit_def below_overflow above_underflow)
  then have "list_all (valid_record py_float) [[''nan'', ''1'', ''0'', ''0'', ''-5'', ''5'']]"
    by (simp add: valid_record_def)
  from load_valid[OF this] tok show ?thesis by (simp add: field_def)
qed

end
